theory Spec2Isabelle
  imports Complex_Main "HOL-Library.Word" "HOL-Library.Sublist"
begin

section \<open>Values of the Go program\<close>

subsection \<open>float64\<close>

text \<open>
  A \<open>float64\<close> is not-a-number, one of the two infinities, negative zero, or a finite
  value. The package only classifies floats (\<open>math.IsNaN\<close>, \<open>math.IsInf\<close>), compares
  them with constants and prints them; it never computes with them, so no rounding
  takes place and a finite value is modelled by the rational number it denotes
  (\<open>Fin 0\<close> is positive zero). Every comparison with \<open>NaN\<close> is false, and the two
  zeros compare equal, as in Go.
\<close>

datatype float64 = NaN | PosInf | NegInf | NegZero | Fin rat

definition IsNaN :: "float64 \<Rightarrow> bool" where
  "IsNaN f = (f = NaN)"

text \<open>\<open>math.IsInf(f, 0)\<close>: either infinity.\<close>

definition IsInf :: "float64 \<Rightarrow> bool" where
  "IsInf f = (f = PosInf \<or> f = NegInf)"

fun finite_value :: "float64 \<Rightarrow> rat" where
  "finite_value (Fin x) = x"
| "finite_value _ = 0"

fun float_lt :: "float64 \<Rightarrow> float64 \<Rightarrow> bool" where
  "float_lt NaN _ = False"
| "float_lt _ NaN = False"
| "float_lt PosInf _ = False"
| "float_lt _ NegInf = False"
| "float_lt NegInf _ = True"
| "float_lt _ PosInf = True"
| "float_lt x y = (finite_value x < finite_value y)"

definition float_gt :: "float64 \<Rightarrow> float64 \<Rightarrow> bool" where
  "float_gt x y = float_lt y x"

definition float_le :: "float64 \<Rightarrow> float64 \<Rightarrow> bool" where
  "float_le x y = (x \<noteq> NaN \<and> y \<noteq> NaN \<and> \<not> float_lt y x)"

definition float_ge :: "float64 \<Rightarrow> float64 \<Rightarrow> bool" where
  "float_ge x y = float_le y x"

subsection \<open>The verbs of \<open>fmt.Sprintf\<close> that the package uses\<close>

definition hex_digit :: "nat \<Rightarrow> char" where
  "hex_digit d = ''0123456789abcdef'' ! (d mod 16)"

fun decimal :: "nat \<Rightarrow> string" where
  "decimal n = (if n < 10 then [hex_digit n] else decimal (n div 10) @ [hex_digit (n mod 10)])"

declare decimal.simps [simp del]

text \<open>\<open>%02x\<close> of a \<open>uint8\<close>: two lowercase hexadecimal digits, zero padded.\<close>

definition fmt_02x :: "8 word \<Rightarrow> string" where
  "fmt_02x w = [hex_digit (unat w div 16), hex_digit (unat w mod 16)]"

text \<open>\<open>%d\<close> of an \<open>int8\<close>: the signed decimal numeral.\<close>

definition fmt_d :: "8 word \<Rightarrow> string" where
  "fmt_d w = (if sint w < 0 then ''-'' @ decimal (nat (- sint w)) else decimal (nat (sint w)))"

text \<open>
  \<open>%f\<close> of a \<open>float64\<close>: the sign, the integer part, a point and six decimals, the
  exact value rounded to the nearest multiple of \<open>10\<^sup>-\<^sup>6\<close>, a tie going to the even
  neighbour. The sign is printed from the sign bit, also when the digits round to zero.
\<close>

definition round_half_even :: "rat \<Rightarrow> int" where
  "round_half_even x =
     (let f = \<lfloor>x\<rfloor>; d = x - of_int f
      in if d < 1 / 2 then f else if 1 / 2 < d then f + 1 else if even f then f else f + 1)"

definition fmt_f_abs :: "rat \<Rightarrow> string" where
  "fmt_f_abs x =
     (let n = nat (round_half_even (x * 1000000)); frac = decimal (n mod 1000000)
      in decimal (n div 1000000) @ ''.'' @ replicate (6 - length frac) (CHR ''0'') @ frac)"

fun fmt_f :: "float64 \<Rightarrow> string" where
  "fmt_f NaN = ''NaN''"
| "fmt_f PosInf = ''+Inf''"
| "fmt_f NegInf = ''-Inf''"
| "fmt_f NegZero = ''-0.000000''"
| "fmt_f (Fin x) = (if x < 0 then ''-'' @ fmt_f_abs (- x) else fmt_f_abs x)"

subsection \<open>\<open>strings.TrimSpace\<close>\<close>

text \<open>
  A Go string is a sequence of bytes holding UTF-8 text. \<open>strings.TrimSpace\<close> removes
  every leading and every trailing white space rune (\<open>unicode.IsSpace\<close>): the six ASCII
  ones and the UTF-8 encodings of U+0085, U+00A0, U+1680, U+2000 to U+200A, U+2028,
  U+2029, U+202F, U+205F and U+3000.
\<close>

definition space_runes :: "string list" where
  "space_runes =
     [[CHR 0x09], [CHR 0x0A], [CHR 0x0B], [CHR 0x0C], [CHR 0x0D], [CHR 0x20],
      [CHR 0xC2, CHR 0x85], [CHR 0xC2, CHR 0xA0], [CHR 0xE1, CHR 0x9A, CHR 0x80],
      [CHR 0xE2, CHR 0x80, CHR 0x80], [CHR 0xE2, CHR 0x80, CHR 0x81],
      [CHR 0xE2, CHR 0x80, CHR 0x82], [CHR 0xE2, CHR 0x80, CHR 0x83],
      [CHR 0xE2, CHR 0x80, CHR 0x84], [CHR 0xE2, CHR 0x80, CHR 0x85],
      [CHR 0xE2, CHR 0x80, CHR 0x86], [CHR 0xE2, CHR 0x80, CHR 0x87],
      [CHR 0xE2, CHR 0x80, CHR 0x88], [CHR 0xE2, CHR 0x80, CHR 0x89],
      [CHR 0xE2, CHR 0x80, CHR 0x8A], [CHR 0xE2, CHR 0x80, CHR 0xA8],
      [CHR 0xE2, CHR 0x80, CHR 0xA9], [CHR 0xE2, CHR 0x80, CHR 0xAF],
      [CHR 0xE2, CHR 0x81, CHR 0x9F], [CHR 0xE3, CHR 0x80, CHR 0x80]]"

text \<open>The number of bytes of the white space rune that \<open>s\<close> starts with, 0 when there is none.\<close>

definition leading_space :: "string \<Rightarrow> nat" where
  "leading_space s = (case find (\<lambda>w. prefix w s) space_runes of None \<Rightarrow> 0 | Some w \<Rightarrow> length w)"

definition trailing_space :: "string \<Rightarrow> nat" where
  "trailing_space s = (case find (\<lambda>w. suffix w s) space_runes of None \<Rightarrow> 0 | Some w \<Rightarrow> length w)"

function TrimLeft :: "string \<Rightarrow> string" where
  "TrimLeft s = (if leading_space s = 0 then s else TrimLeft (drop (leading_space s) s))"
  by pat_completeness auto
termination
proof (relation "measure length")
  fix s :: string
  assume nz: "leading_space s \<noteq> 0"
  have found: "find P xs = Some x \<Longrightarrow> P x" for P and xs :: "string list" and x
    by (induction xs) (auto split: if_splits)
  have "leading_space s \<le> length s"
    unfolding leading_space_def
    by (cases "find (\<lambda>w. prefix w s) space_runes") (auto dest: found prefix_length_le)
  with nz show "(drop (leading_space s) s, s) \<in> measure length" by simp
qed simp

function TrimRight :: "string \<Rightarrow> string" where
  "TrimRight s = (if trailing_space s = 0 then s else TrimRight (take (length s - trailing_space s) s))"
  by pat_completeness auto
termination
proof (relation "measure length")
  fix s :: string
  assume nz: "trailing_space s \<noteq> 0"
  have found: "find P xs = Some x \<Longrightarrow> P x" for P and xs :: "string list" and x
    by (induction xs) (auto split: if_splits)
  have "trailing_space s \<le> length s"
    unfolding trailing_space_def
    by (cases "find (\<lambda>w. suffix w s) space_runes") (auto dest: found suffix_length_le)
  with nz show "(take (length s - trailing_space s) s, s) \<in> measure length" by simp
qed simp

declare TrimLeft.simps [simp del] TrimRight.simps [simp del]

definition TrimSpace :: "string \<Rightarrow> string" where
  "TrimSpace s = TrimRight (TrimLeft s)"


section \<open>Objects and the heap\<close>

text \<open>
  Every object of the package lives behind a pointer. A pointer is \<open>nil\<close> or the
  address of a cell; a value of the interface \<open>renderable\<close> is the nil interface or a
  pointer of one of the four types with a \<open>render\<close> method (a nil pointer inside an
  interface value is not the nil interface). The heap has one store per struct type.
\<close>

type_synonym addr = nat

datatype pointer = nil | Ref addr

datatype renderable =
  nil_renderable | Folder_ptr pointer | Style_ptr pointer | Point_ptr pointer | Placemark_ptr pointer

record KML =
  folders :: "pointer list"

record Folder =
  folder_name :: string
  folder_description :: string
  features :: "renderable list"

record Style =
  style_name :: string
  alpha :: "8 word"
  red :: "8 word"
  green :: "8 word"
  blue :: "8 word"
  iconURL :: string
  iconScale :: float64
  fill :: "8 word"

record Point =
  Lat :: float64
  Lon :: float64
  Alt :: float64

record Placemark =
  placemark_name :: string
  placemark_description :: string
  geometry :: renderable
  style :: string

record heap =
  KMLs :: "addr \<Rightarrow> KML option"
  Folders :: "addr \<Rightarrow> Folder option"
  Styles :: "addr \<Rightarrow> Style option"
  Points :: "addr \<Rightarrow> Point option"
  Placemarks :: "addr \<Rightarrow> Placemark option"
  next_addr :: addr

definition empty_heap :: heap where
  "empty_heap = \<lparr>KMLs = Map.empty, Folders = Map.empty, Styles = Map.empty,
     Points = Map.empty, Placemarks = Map.empty, next_addr = 0\<rparr>"

text \<open>
  The ways a call can end without returning. \<open>dangling_pointer\<close> (an address with no
  cell) cannot arise in Go, whose pointers always point to live objects; it keeps the
  model total. \<open>stack_overflow\<close> ends a recursion deeper than the call stack allows,
  as happens on a folder that contains itself.
\<close>

datatype panic = nil_pointer_dereference | stack_overflow | dangling_pointer

definition load :: "(addr \<Rightarrow> 'a option) \<Rightarrow> pointer \<Rightarrow> panic + 'a" where
  "load cells p =
     (case p of
        nil \<Rightarrow> Inl nil_pointer_dereference
      | Ref a \<Rightarrow> (case cells a of None \<Rightarrow> Inl dangling_pointer | Some v \<Rightarrow> Inr v))"

definition dquote :: string where
  "dquote = [CHR 0x22]"

section \<open>Style\<close>

definition NewStyle :: "string \<Rightarrow> 8 word \<Rightarrow> 8 word \<Rightarrow> 8 word \<Rightarrow> 8 word \<Rightarrow> heap \<Rightarrow> pointer \<times> heap" where
  "NewStyle name a r g b h =
     (Ref (next_addr h),
      h\<lparr>Styles := (Styles h)(next_addr h \<mapsto>
           \<lparr>style_name = name, alpha = a, red = r, green = g, blue = b,
            iconURL = ''http://maps.google.com/mapfiles/kml/pushpin/ylw-pushpin.png'',
            iconScale = Fin (11 / 10), fill = 1\<rparr>),
        next_addr := Suc (next_addr h)\<rparr>)"

text \<open>An assignment to a field of \<open>*s\<close>: it panics on a nil receiver.\<close>

definition assign_Style :: "pointer \<Rightarrow> (Style \<Rightarrow> Style) \<Rightarrow> heap \<Rightarrow> panic + heap" where
  "assign_Style s upd h =
     (case s of
        nil \<Rightarrow> Inl nil_pointer_dereference
      | Ref a \<Rightarrow> (case Styles h a of
                   None \<Rightarrow> Inl dangling_pointer
                 | Some v \<Rightarrow> Inr (h\<lparr>Styles := (Styles h)(a \<mapsto> upd v)\<rparr>)))"

definition SetIconURL :: "pointer \<Rightarrow> string \<Rightarrow> heap \<Rightarrow> panic + heap" where
  "SetIconURL s url h =
     (let url = TrimSpace url
      in if length url > 0 then assign_Style s (\<lambda>v. v\<lparr>iconURL := url\<rparr>) h else Inr h)"

definition SetIconScale :: "pointer \<Rightarrow> float64 \<Rightarrow> heap \<Rightarrow> panic + heap" where
  "SetIconScale s scale h =
     (if float_ge scale (Fin 0) \<and> float_le scale (Fin 100)
      then assign_Style s (\<lambda>v. v\<lparr>iconScale := scale\<rparr>) h else Inr h)"

definition SetPolygonFill :: "pointer \<Rightarrow> bool \<Rightarrow> heap \<Rightarrow> panic + heap" where
  "SetPolygonFill s b h =
     (if b = True then assign_Style s (\<lambda>v. v\<lparr>fill := 1\<rparr>) h
      else assign_Style s (\<lambda>v. v\<lparr>fill := 0\<rparr>) h)"

definition colorStr :: "Style \<Rightarrow> string" where
  "colorStr v = ''<color>'' @ fmt_02x (alpha v) @ fmt_02x (blue v) @ fmt_02x (green v)
     @ fmt_02x (red v) @ ''</color>\<newline>''"

definition Style_text :: "Style \<Rightarrow> string" where
  "Style_text v =
     ''<Style id='' @ dquote @ style_name v @ dquote @ ''>\<newline>'' @
     ''<IconStyle>\<newline>'' @
     colorStr v @
     ''<scale>'' @ fmt_f (iconScale v) @ ''</scale>\<newline>'' @
     ''<Icon><href>'' @ iconURL v @ ''</href></Icon>\<newline>'' @
     ''</IconStyle>\<newline>'' @
     ''<LineStyle>\<newline>'' @
     colorStr v @
     ''<width>3</width>\<newline>'' @
     ''</LineStyle>\<newline>'' @
     ''<PolyStyle>\<newline>'' @
     colorStr v @
     ''<colorMode>normal</colorMode>\<newline>'' @
     ''<fill>'' @ fmt_d (fill v) @ ''</fill>\<newline>'' @
     ''<outline>1</outline>\<newline>'' @
     ''</PolyStyle>\<newline>'' @
     ''</Style>\<newline>''"

definition Style_render :: "pointer \<Rightarrow> heap \<Rightarrow> panic + string \<times> heap" where
  "Style_render s h = (case load (Styles h) s of Inl e \<Rightarrow> Inl e | Inr v \<Rightarrow> Inr (Style_text v, h))"

section \<open>Point\<close>

text \<open>
  \<open>NewPoint\<close> returns a pointer and an error. The error is \<open>None\<close> for Go's nil error
  and otherwise the message that \<open>errors.New\<close> was given.
\<close>

definition NewPoint :: "float64 \<Rightarrow> float64 \<Rightarrow> float64 \<Rightarrow> heap \<Rightarrow> (pointer \<times> string option) \<times> heap" where
  "NewPoint lat lon alt h =
     (if IsNaN lat \<or> IsInf lat then ((nil, Some ''Lat is NaN or Inf.''), h)
      else if float_gt lat (Fin 90) \<or> float_lt lat (Fin (- 90))
      then ((nil, Some (''Invalid Lat: '' @ fmt_f lat)), h)
      else if IsNaN lon \<or> IsInf lon then ((nil, Some ''Lon is NaN or Inf.''), h)
      else if float_gt lon (Fin 180) \<or> float_lt lon (Fin (- 180))
      then ((nil, Some (''Invalid Lon: '' @ fmt_f lon)), h)
      else let alt = (if IsNaN alt \<or> IsInf alt then Fin 0 else alt)
           in ((Ref (next_addr h), None),
               h\<lparr>Points := (Points h)(next_addr h \<mapsto> \<lparr>Lat = lat, Lon = lon, Alt = alt\<rparr>),
                 next_addr := Suc (next_addr h)\<rparr>))"

definition Point_text :: "Point \<Rightarrow> string" where
  "Point_text v =
     ''<Point>\<newline>'' @
     ''<extrude>0</extrude>\<newline>'' @
     ''<altitudeMode>clampToGround</altitudeMode>\<newline>'' @
     ''<coordinates>'' @ fmt_f (Lon v) @ '','' @ fmt_f (Lat v) @ '','' @ fmt_f (Alt v)
       @ ''</coordinates>\<newline>'' @
     ''</Point>\<newline>''"

definition Point_render :: "pointer \<Rightarrow> heap \<Rightarrow> panic + string \<times> heap" where
  "Point_render p h = (case load (Points h) p of Inl e \<Rightarrow> Inl e | Inr v \<Rightarrow> Inr (Point_text v, h))"

section \<open>Placemark\<close>

definition NewPlacemark :: "string \<Rightarrow> string \<Rightarrow> renderable \<Rightarrow> heap \<Rightarrow> pointer \<times> heap" where
  "NewPlacemark name desc geom h =
     (Ref (next_addr h),
      h\<lparr>Placemarks := (Placemarks h)(next_addr h \<mapsto>
           \<lparr>placemark_name = name, placemark_description = desc, geometry = geom, style = []\<rparr>),
        next_addr := Suc (next_addr h)\<rparr>)"

definition assign_Placemark :: "pointer \<Rightarrow> (Placemark \<Rightarrow> Placemark) \<Rightarrow> heap \<Rightarrow> panic + heap" where
  "assign_Placemark pm upd h =
     (case pm of
        nil \<Rightarrow> Inl nil_pointer_dereference
      | Ref a \<Rightarrow> (case Placemarks h a of
                   None \<Rightarrow> Inl dangling_pointer
                 | Some v \<Rightarrow> Inr (h\<lparr>Placemarks := (Placemarks h)(a \<mapsto> upd v)\<rparr>)))"

definition SetStyle :: "pointer \<Rightarrow> string \<Rightarrow> heap \<Rightarrow> panic + heap" where
  "SetStyle pm name h =
     (let name = TrimSpace name
      in if length name > 0 then assign_Placemark pm (\<lambda>v. v\<lparr>style := name\<rparr>) h else Inr h)"

text \<open>The text that \<open>Placemark.render\<close> has built when it calls the geometry's \<open>render\<close>.\<close>

definition Placemark_head :: "Placemark \<Rightarrow> string" where
  "Placemark_head v =
     (let ret = ''<Placemark>\<newline>'' @
            ''<name>'' @ placemark_name v @ ''</name>\<newline>'' @
            ''<description>'' @ placemark_description v @ ''</description>\<newline>'' @
            ''<visibility>1</visibility>\<newline>''
      in if length (style v) > 0 then ret @ ''<styleUrl>#'' @ style v @ ''</styleUrl>\<newline>''
         else ret)"

section \<open>Folder\<close>

definition NewFolder :: "string \<Rightarrow> string \<Rightarrow> heap \<Rightarrow> pointer \<times> heap" where
  "NewFolder name desc h =
     (Ref (next_addr h),
      h\<lparr>Folders := (Folders h)(next_addr h \<mapsto>
           \<lparr>folder_name = name, folder_description = desc, features = []\<rparr>),
        next_addr := Suc (next_addr h)\<rparr>)"



definition Folder_head :: "Folder \<Rightarrow> string" where
  "Folder_head v =
     ''<Folder>\<newline>'' @
     ''<name>'' @ folder_name v @ ''</name>\<newline>'' @
     ''<description>'' @ folder_description v @ ''</description>\<newline>''"

section \<open>Rendering the tree\<close>

text \<open>
  \<open>Folder.render\<close> and \<open>Placemark.render\<close> call \<open>render\<close> on interface values, which
  dispatches on the dynamic type and may come back to them. The first argument bounds
  the depth of the nested calls of these two methods; \<open>render_features\<close> is the
  \<open>for\<close> loop of \<open>Folder.render\<close>, with \<open>ret\<close> the text built so far. Each call takes
  the heap and returns it with its text.
\<close>

fun Folder_render :: "nat \<Rightarrow> pointer \<Rightarrow> heap \<Rightarrow> panic + string \<times> heap"
  and Placemark_render :: "nat \<Rightarrow> pointer \<Rightarrow> heap \<Rightarrow> panic + string \<times> heap"
  and renderable_render :: "nat \<Rightarrow> renderable \<Rightarrow> heap \<Rightarrow> panic + string \<times> heap"
  and render_features :: "nat \<Rightarrow> renderable list \<Rightarrow> string \<Rightarrow> heap \<Rightarrow> panic + string \<times> heap"
where
  "Folder_render 0 f h = Inl stack_overflow"
| "Folder_render (Suc n) f h =
     (case load (Folders h) f of
        Inl e \<Rightarrow> Inl e
      | Inr v \<Rightarrow>
          (case render_features n (features v) (Folder_head v) h of
             Inl e \<Rightarrow> Inl e
           | Inr (ret, h') \<Rightarrow> Inr (ret @ ''</Folder>\<newline>'', h')))"
| "Placemark_render 0 pm h = Inl stack_overflow"
| "Placemark_render (Suc n) pm h =
     (case load (Placemarks h) pm of
        Inl e \<Rightarrow> Inl e
      | Inr v \<Rightarrow>
          (case renderable_render n (geometry v) h of
             Inl e \<Rightarrow> Inl e
           | Inr (g, h') \<Rightarrow> Inr (Placemark_head v @ g @ ''</Placemark>\<newline>'', h')))"
| "renderable_render n nil_renderable h = Inl nil_pointer_dereference"
| "renderable_render n (Folder_ptr p) h = Folder_render n p h"
| "renderable_render n (Style_ptr p) h = Style_render p h"
| "renderable_render n (Point_ptr p) h = Point_render p h"
| "renderable_render n (Placemark_ptr p) h = Placemark_render n p h"
| "render_features n [] ret h = Inr (ret, h)"
| "render_features n (feature # rest) ret h =
     (case renderable_render n feature h of
        Inl e \<Rightarrow> Inl e
      | Inr (s, h') \<Rightarrow> render_features n rest (ret @ s) h')"

section \<open>KML\<close>

definition NewKML :: "heap \<Rightarrow> pointer \<times> heap" where
  "NewKML h =
     (Ref (next_addr h),
      h\<lparr>KMLs := (KMLs h)(next_addr h \<mapsto> \<lparr>folders = []\<rparr>), next_addr := Suc (next_addr h)\<rparr>)"



definition KML_head :: string where
  "KML_head =
     ''<?xml version='' @ dquote @ ''1.0'' @ dquote @ '' encoding='' @ dquote @ ''UTF-8'' @ dquote
       @ ''?>\<newline>'' @
     ''<kml xmlns='' @ dquote @ ''http://www.opengis.net/kml/2.2'' @ dquote @ ''>\<newline>''"

text \<open>The \<open>for\<close> loop of \<open>KML.Render\<close>.\<close>

fun render_folders :: "nat \<Rightarrow> pointer list \<Rightarrow> string \<Rightarrow> heap \<Rightarrow> panic + string \<times> heap" where
  "render_folders n [] ret h = Inr (ret, h)"
| "render_folders n (folder # rest) ret h =
     (case Folder_render n folder h of
        Inl e \<Rightarrow> Inl e
      | Inr (s, h') \<Rightarrow> render_folders n rest (ret @ s) h')"

definition KML_Render :: "nat \<Rightarrow> pointer \<Rightarrow> heap \<Rightarrow> panic + string \<times> heap" where
  "KML_Render n k h =
     (case load (KMLs h) k of
        Inl e \<Rightarrow> Inl e
      | Inr v \<Rightarrow>
          (case render_folders n (folders v) KML_head h of
             Inl e \<Rightarrow> Inl e
           | Inr (ret, h') \<Rightarrow> Inr (ret @ ''</kml>\<newline>'', h')))"

section \<open>Notions of the specification\<close>

text \<open>
  The specification speaks of valid coordinates, of an icon scale in the closed interval
  from 0 to 100, and of latitude-specific and longitude-specific errors. These are its
  notions, written down independently of the checks in the code: a valid latitude is a finite
  number between -90 and 90, a valid longitude a finite number between -180 and 180,
  and an error is specific to a coordinate when its message is one of the two messages
  that \<open>NewPoint\<close> has for that coordinate.
\<close>

fun valid_latitude :: "float64 \<Rightarrow> bool" where
  "valid_latitude (Fin x) = (- 90 \<le> x \<and> x \<le> 90)"
| "valid_latitude NegZero = True"
| "valid_latitude _ = False"

fun valid_longitude :: "float64 \<Rightarrow> bool" where
  "valid_longitude (Fin x) = (- 180 \<le> x \<and> x \<le> 180)"
| "valid_longitude NegZero = True"
| "valid_longitude _ = False"

fun valid_scale :: "float64 \<Rightarrow> bool" where
  "valid_scale (Fin x) = (0 \<le> x \<and> x \<le> 100)"
| "valid_scale NegZero = True"
| "valid_scale _ = False"

definition is_latitude_error :: "string option \<Rightarrow> bool" where
  "is_latitude_error e =
     (case e of None \<Rightarrow> False | Some m \<Rightarrow> m = ''Lat is NaN or Inf.'' \<or> prefix ''Invalid Lat: '' m)"

definition is_longitude_error :: "string option \<Rightarrow> bool" where
  "is_longitude_error e =
     (case e of None \<Rightarrow> False | Some m \<Rightarrow> m = ''Lon is NaN or Inf.'' \<or> prefix ''Invalid Lon: '' m)"

text \<open>The value of a hexadecimal digit, for reading a colour back.\<close>

definition hex_value :: "char \<Rightarrow> nat" where
  "hex_value c = length (takeWhile (\<lambda>d. d \<noteq> c) ''0123456789abcdef'')"

text \<open>A call that returns leaves the heap as it found it.\<close>

definition keeps :: "heap \<Rightarrow> panic + string \<times> heap \<Rightarrow> bool" where
  "keeps h r = (case r of Inl e \<Rightarrow> True | Inr (s, h') \<Rightarrow> h' = h)"

text \<open>
  A document with one folder that holds a style and a placemark on the point of latitude
  10, longitude 20 and altitude 0.
\<close>

definition example_style :: Style where
  "example_style = \<lparr>style_name = ''s'', alpha = 255, red = 1, green = 2, blue = 3,
     iconURL = ''http://maps.google.com/mapfiles/kml/pushpin/ylw-pushpin.png'',
     iconScale = Fin (11 / 10), fill = 0\<rparr>"

definition example_point :: Point where
  "example_point = \<lparr>Lat = Fin 10, Lon = Fin 20, Alt = Fin 0\<rparr>"

definition example_placemark :: Placemark where
  "example_placemark = \<lparr>placemark_name = ''P'', placemark_description = ''a point'',
     geometry = Point_ptr (Ref 2), style = []\<rparr>"

definition example_folder :: Folder where
  "example_folder = \<lparr>folder_name = ''F'', folder_description = ''a folder'',
     features = [Style_ptr (Ref 4), Placemark_ptr (Ref 3)]\<rparr>"

definition example_heap :: heap where
  "example_heap =
     \<lparr>KMLs = Map.empty(0 \<mapsto> \<lparr>folders = [Ref 1]\<rparr>),
      Folders = Map.empty(1 \<mapsto> example_folder),
      Styles = Map.empty(4 \<mapsto> example_style),
      Points = Map.empty(2 \<mapsto> example_point),
      Placemarks = Map.empty(3 \<mapsto> example_placemark),
      next_addr = 5\<rparr>"

section \<open>Evaluating the formatting functions\<close>

lemma decimal_0: "decimal 0 = ''0''"
  by (subst decimal.simps) (simp add: hex_digit_def)

lemma decimal_Suc_0: "decimal (Suc 0) = ''1''"
  by (subst decimal.simps) (simp add: hex_digit_def)

lemma decimal_numeral:
  "decimal (numeral k) =
     (if numeral k < (10::nat) then [hex_digit (numeral k)]
      else decimal (numeral k div 10) @ [hex_digit (numeral k mod 10)])"
  by (subst decimal.simps) simp

lemma replicate_numeral: "replicate (numeral k) x = x # replicate (pred_numeral k) x"
  by (simp add: numeral_eq_Suc)

lemmas fmt_eval = fmt_f_abs_def round_half_even_def fmt_02x_def fmt_d_def hex_digit_def Let_def
  decimal_0 decimal_Suc_0 decimal_numeral replicate_numeral

lemma hex_digit_value: "d < 16 \<Longrightarrow> hex_value (hex_digit d) = d"
proof -
  assume "d < 16"
  then have "d = 0 \<or> d = 1 \<or> d = 2 \<or> d = 3 \<or> d = 4 \<or> d = 5 \<or> d = 6 \<or> d = 7 \<or> d = 8 \<or> d = 9
     \<or> d = 10 \<or> d = 11 \<or> d = 12 \<or> d = 13 \<or> d = 14 \<or> d = 15" by arith
  then show ?thesis by (elim disjE) (simp_all add: hex_value_def hex_digit_def)
qed

lemma hex_digit_lowercase: "hex_digit d \<in> set ''0123456789abcdef''"
proof -
  have "d mod 16 < length ''0123456789abcdef''" by simp
  then show ?thesis unfolding hex_digit_def by (rule nth_mem)
qed

lemma fmt_02x_digits:
  "length (fmt_02x w) = 2 \<and> set (fmt_02x w) \<subseteq> set ''0123456789abcdef'' \<and>
   hex_value (fmt_02x w ! 0) * 16 + hex_value (fmt_02x w ! 1) = unat w"
proof -
  have "unat w < 256" using unsigned_less [of w, where ?'a = nat] by simp
  then have "unat w div 16 < 16" by simp
  moreover have "unat w mod 16 < 16" by simp
  ultimately have "hex_value (hex_digit (unat w div 16)) * 16 + hex_value (hex_digit (unat w mod 16)) = unat w"
    by (simp only: hex_digit_value) simp
  moreover have "hex_digit (unat w div 16) \<in> set ''0123456789abcdef''"
    "hex_digit (unat w mod 16) \<in> set ''0123456789abcdef''"
    by (rule hex_digit_lowercase)+
  ultimately show ?thesis by (simp add: fmt_02x_def)
qed

section \<open>Rendering leaves the heap alone\<close>

lemma keeps_Inl [simp]: "keeps h (Inl e)"
  by (simp add: keeps_def)

lemma keeps_Inr [simp]: "keeps h (Inr (s, h')) = (h' = h)"
  by (simp add: keeps_def)

lemma keeps_Style_render: "keeps h (Style_render p h)"
  by (cases "load (Styles h) p") (simp_all add: Style_render_def)

lemma keeps_Point_render: "keeps h (Point_render p h)"
  by (cases "load (Points h) p") (simp_all add: Point_render_def)

lemma keeps_render:
  "keeps h (Folder_render n f h)"
  "keeps h (Placemark_render n pm h)"
  "keeps h (renderable_render n r h)"
  "keeps h (render_features n fs ret h)"
proof (induction n f h and n pm h and n r h and n fs ret h
    rule: Folder_render_Placemark_render_renderable_render_render_features.induct)
  case (2 n f h)
  show ?case
  proof (cases "load (Folders h) f")
    case (Inr v)
    from 2 [OF Inr] show ?thesis
      by (cases "render_features n (features v) (Folder_head v) h") (auto simp: Inr)
  qed simp
next
  case (4 n pm h)
  show ?case
  proof (cases "load (Placemarks h) pm")
    case (Inr v)
    from 4 [OF Inr] show ?thesis
      by (cases "renderable_render n (geometry v) h") (auto simp: Inr)
  qed simp
next
  case (11 n feature rest ret h)
  show ?case
  proof (cases "renderable_render n feature h")
    case (Inr x)
    obtain s h' where x: "x = (s, h')" by (cases x)
    from 11(1) Inr x have "h' = h" by simp
    with 11(2) [OF Inr x [symmetric]] show ?thesis by (simp add: Inr x)
  qed simp
qed (simp_all add: keeps_Style_render keeps_Point_render)

lemma keeps_render_folders: "keeps h (render_folders n fs ret h)"
proof (induction fs arbitrary: ret)
  case Nil
  show ?case by simp
next
  case (Cons folder rest)
  show ?case
  proof (cases "Folder_render n folder h")
    case (Inr x)
    obtain s h' where x: "x = (s, h')" by (cases x)
    from keeps_render(1) [of h n folder] Inr x have "h' = h" by simp
    with Cons [of "ret @ s"] show ?thesis by (simp add: Inr x)
  qed simp
qed

lemma keeps_KML_Render: "keeps h (KML_Render n k h)"
proof (cases "load (KMLs h) k")
  case (Inr v)
  from keeps_render_folders [of h n "folders v" KML_head] show ?thesis
    by (cases "render_folders n (folders v) KML_head h") (auto simp: KML_Render_def Inr)
qed (simp add: KML_Render_def)

lemma keepsD: "keeps h r \<Longrightarrow> r = Inr (s, h') \<Longrightarrow> h' = h"
  by simp

section \<open>The example document\<close>

lemma example_Style_render:
  "Style_render (Ref 4) example_heap = Inr (Style_text example_style, example_heap)"
  by (simp add: Style_render_def load_def example_heap_def)

lemma example_Point_render:
  "Point_render (Ref 2) example_heap = Inr (Point_text example_point, example_heap)"
  by (simp add: Point_render_def load_def example_heap_def)

lemma example_Placemark_render:
  "Placemark_render (Suc 0) (Ref 3) example_heap =
     Inr (Placemark_head example_placemark @ Point_text example_point @ ''</Placemark>\<newline>'',
          example_heap)"
proof -
  have "load (Placemarks example_heap) (Ref 3) = Inr example_placemark"
    by (simp add: load_def example_heap_def)
  then show ?thesis
    using example_Point_render by (simp add: example_placemark_def)
qed

lemma example_Folder_render:
  "Folder_render (Suc (Suc 0)) (Ref 1) example_heap =
     Inr (Folder_head example_folder @ Style_text example_style @
          (Placemark_head example_placemark @ Point_text example_point @ ''</Placemark>\<newline>'') @
          ''</Folder>\<newline>'', example_heap)"
proof -
  have "load (Folders example_heap) (Ref 1) = Inr example_folder"
    by (simp add: load_def example_heap_def)
  then show ?thesis
    using example_Style_render example_Placemark_render by (simp add: example_folder_def)
qed

lemma example_KML_Render:
  "KML_Render (Suc (Suc 0)) (Ref 0) example_heap =
     Inr (KML_head @ (Folder_head example_folder @ Style_text example_style @
          (Placemark_head example_placemark @ Point_text example_point @ ''</Placemark>\<newline>'') @
          ''</Folder>\<newline>'') @ ''</kml>\<newline>'', example_heap)"
proof -
  have "load (KMLs example_heap) (Ref 0) = Inr \<lparr>folders = [Ref 1]\<rparr>"
    by (simp add: load_def example_heap_def)
  then show ?thesis
    using example_Folder_render by (simp add: KML_Render_def)
qed

section \<open>The claims\<close>

text \<open>
  C1. The claim: a Style made by \<open>NewStyle\<close> has its fill flag 0. The code: for every
  name and colour, the Style that \<open>NewStyle\<close> returns has fill 1, and its rendering
  holds the line \<open><fill>1</fill>\<close>.
\<close>

theorem NewStyle_fill_is_1:
  "(case NewStyle name a r g b h of (s, h') \<Rightarrow> map_sum id fill (load (Styles h') s)) = Inr 1 \<and>
   (case NewStyle name a r g b h of (s, h') \<Rightarrow>
      map_sum id (\<lambda>(text, h''). sublist ''<fill>1</fill>'' text) (Style_render s h')) = Inr True"
proof -
  have "sublist ''<fill>1</fill>'' (Style_text v)" if "fill v = 1" for v
    unfolding sublist_def
    by (rule exI [of _ "''<Style id='' @ dquote @ style_name v @ dquote @ ''>\<newline>'' @
         ''<IconStyle>\<newline>'' @ colorStr v @ ''<scale>'' @ fmt_f (iconScale v) @ ''</scale>\<newline>'' @
         ''<Icon><href>'' @ iconURL v @ ''</href></Icon>\<newline>'' @ ''</IconStyle>\<newline>'' @
         ''<LineStyle>\<newline>'' @ colorStr v @ ''<width>3</width>\<newline>'' @ ''</LineStyle>\<newline>'' @
         ''<PolyStyle>\<newline>'' @ colorStr v @ ''<colorMode>normal</colorMode>\<newline>''"],
        rule exI [of _ "''\<newline><outline>1</outline>\<newline></PolyStyle>\<newline></Style>\<newline>''"])
       (simp add: Style_text_def that fmt_d_def decimal_Suc_0)
  then show ?thesis
    by (simp add: NewStyle_def load_def Style_render_def)
qed



text \<open>
  C10. \<open>NewPlacemark\<close> stores the geometry it is given without looking at it, and
  \<open>Placemark.render\<close> calls the geometry's \<open>render\<close> whatever it is: on a placemark
  made with the nil interface value the call panics with a nil dereference; it neither
  skips the geometry nor returns a text (with no stack left it cannot even start).
\<close>

theorem nil_geometry_panics:
  "(case NewPlacemark name desc geom h of (pm, h') \<Rightarrow> load (Placemarks h') pm) =
     Inr \<lparr>placemark_name = name, placemark_description = desc, geometry = geom, style = []\<rparr> \<and>
   (case NewPlacemark name desc nil_renderable h of (pm, h') \<Rightarrow> Placemark_render (Suc n) pm h') =
     Inl nil_pointer_dereference \<and>
   (case NewPlacemark name desc nil_renderable h of (pm, h') \<Rightarrow> Placemark_render 0 pm h') =
     Inl stack_overflow"
  by (simp add: NewPlacemark_def load_def)

text \<open>
  C2, as amended. The latitude is checked first. For every latitude that is not valid
  (91, -91, NaN and +Inf among them) and every longitude whatsoever, \<open>NewPoint\<close> returns
  no point and a latitude error; for every longitude that is not valid (181, -181, NaN
  and +Inf among them) it returns no point and a longitude error when the latitude is
  valid.
\<close>

theorem NewPoint_error_kind:
  "(\<not> valid_latitude lat \<longrightarrow>
      fst (fst (NewPoint lat lon alt h)) = nil \<and>
      is_latitude_error (snd (fst (NewPoint lat lon alt h)))) \<and>
   (valid_latitude lat \<and> \<not> valid_longitude lon \<longrightarrow>
      fst (fst (NewPoint lat lon alt h)) = nil \<and>
      is_longitude_error (snd (fst (NewPoint lat lon alt h))))"
  by (cases lat; cases lon)
    (auto simp: NewPoint_def IsNaN_def IsInf_def float_gt_def is_latitude_error_def
      is_longitude_error_def)

theorem NewPoint_error_kind_witness:
  "\<not> valid_latitude (Fin 91) \<and> \<not> valid_latitude (Fin (- 91)) \<and> \<not> valid_latitude NaN \<and>
   \<not> valid_latitude PosInf \<and>
   is_latitude_error (snd (fst (NewPoint (Fin 91) (Fin 181) (Fin 0) empty_heap))) \<and>
   is_latitude_error (snd (fst (NewPoint NaN (Fin 20) (Fin 0) empty_heap))) \<and>
   valid_latitude (Fin 10) \<and> \<not> valid_longitude (Fin 181) \<and> \<not> valid_longitude (Fin (- 181)) \<and>
   \<not> valid_longitude NaN \<and> \<not> valid_longitude PosInf \<and>
   is_longitude_error (snd (fst (NewPoint (Fin 10) (Fin 181) (Fin 0) empty_heap))) \<and>
   is_longitude_error (snd (fst (NewPoint (Fin 10) PosInf (Fin 0) empty_heap)))"
  using NewPoint_error_kind [of "Fin 91" "Fin 181" "Fin 0" empty_heap]
    NewPoint_error_kind [of NaN "Fin 20" "Fin 0" empty_heap]
    NewPoint_error_kind [of "Fin 10" "Fin 181" "Fin 0" empty_heap]
    NewPoint_error_kind [of "Fin 10" PosInf "Fin 0" empty_heap]
  by simp

text \<open>
  C2, as stated, fails: with latitude 91 and longitude 181 the error is the latitude
  one, not a longitude error.
\<close>

theorem NewPoint_longitude_error_counterexample:
  "snd (fst (NewPoint (Fin 91) (Fin 181) (Fin 0) empty_heap)) = Some ''Invalid Lat: 91.000000'' \<and>
   \<not> is_longitude_error (snd (fst (NewPoint (Fin 91) (Fin 181) (Fin 0) empty_heap)))"
  by (simp add: NewPoint_def IsNaN_def IsInf_def float_gt_def is_longitude_error_def fmt_eval)

text \<open>
  C3, as amended. Whenever \<open>NewPoint\<close> rejects a coordinate it returns the nil pointer,
  allocates nothing and returns an error message: for a finite latitude or longitude out
  of range the message is \<open>Invalid Lat: \<close> or \<open>Invalid Lon: \<close> followed by the
  offending value printed with \<open>%f\<close>; for a NaN or infinite one it is the fixed message
  \<open>Lat is NaN or Inf.\<close> or \<open>Lon is NaN or Inf.\<close>, which does not hold the value.
\<close>

theorem NewPoint_error_message:
  "(IsNaN lat \<or> IsInf lat \<longrightarrow>
      NewPoint lat lon alt h = ((nil, Some ''Lat is NaN or Inf.''), h)) \<and>
   (lat = Fin x \<and> (90 < x \<or> x < - 90) \<longrightarrow>
      NewPoint lat lon alt h = ((nil, Some (''Invalid Lat: '' @ fmt_f lat)), h)) \<and>
   (valid_latitude lat \<and> (IsNaN lon \<or> IsInf lon) \<longrightarrow>
      NewPoint lat lon alt h = ((nil, Some ''Lon is NaN or Inf.''), h)) \<and>
   (valid_latitude lat \<and> lon = Fin y \<and> (180 < y \<or> y < - 180) \<longrightarrow>
      NewPoint lat lon alt h = ((nil, Some (''Invalid Lon: '' @ fmt_f lon)), h))"
  by (cases lat; cases lon)
    (auto simp: NewPoint_def IsNaN_def IsInf_def float_gt_def)

theorem NewPoint_error_message_witness:
  "NewPoint PosInf (Fin 20) (Fin 0) empty_heap = ((nil, Some ''Lat is NaN or Inf.''), empty_heap) \<and>
   NewPoint (Fin 91) (Fin 20) (Fin 0) empty_heap =
     ((nil, Some ''Invalid Lat: 91.000000''), empty_heap) \<and>
   NewPoint (Fin 10) NaN (Fin 0) empty_heap = ((nil, Some ''Lon is NaN or Inf.''), empty_heap) \<and>
   NewPoint (Fin 10) (Fin (- 181)) (Fin 0) empty_heap =
     ((nil, Some ''Invalid Lon: -181.000000''), empty_heap)"
  using NewPoint_error_message [of PosInf "Fin 20" "Fin 0" empty_heap]
    NewPoint_error_message [of "Fin 91" "Fin 20" "Fin 0" empty_heap 91]
    NewPoint_error_message [of "Fin 10" NaN "Fin 0" empty_heap]
    NewPoint_error_message [of "Fin 10" "Fin (- 181)" "Fin 0" empty_heap _ "- 181"]
  by (simp add: IsNaN_def IsInf_def fmt_eval)

text \<open>
  C3, as stated, fails: for the latitude +Inf the error is the fixed message, which does
  not hold the text \<open>+Inf\<close> of the value and is the same error as for -Inf.
\<close>

theorem NewPoint_error_value_counterexample:
  "snd (fst (NewPoint PosInf (Fin 20) (Fin 0) empty_heap)) = Some ''Lat is NaN or Inf.'' \<and>
   \<not> sublist (fmt_f PosInf) ''Lat is NaN or Inf.'' \<and>
   snd (fst (NewPoint PosInf (Fin 20) (Fin 0) empty_heap)) =
     snd (fst (NewPoint NegInf (Fin 20) (Fin 0) empty_heap))"
proof -
  have "\<not> sublist ''+Inf'' ''Lat is NaN or Inf.''"
    by code_simp
  then show ?thesis
    by (simp add: NewPoint_def IsNaN_def IsInf_def)
qed

text \<open>
  C9. A render call that returns hands back the heap it was given, with every object in it
  as before, so the same call made again right after it returns the same text and
  again the same heap. This holds for the document, the folder, the placemark, the style
  and the point, at every depth bound.
\<close>

theorem render_pure:
  "(\<forall>k s h'. KML_Render n k h = Inr (s, h') \<longrightarrow> h' = h \<and> KML_Render n k h' = Inr (s, h')) \<and>
   (\<forall>p s h'. Folder_render n p h = Inr (s, h') \<longrightarrow> h' = h \<and> Folder_render n p h' = Inr (s, h')) \<and>
   (\<forall>p s h'. Placemark_render n p h = Inr (s, h') \<longrightarrow>
      h' = h \<and> Placemark_render n p h' = Inr (s, h')) \<and>
   (\<forall>p s h'. Style_render p h = Inr (s, h') \<longrightarrow> h' = h \<and> Style_render p h' = Inr (s, h')) \<and>
   (\<forall>p s h'. Point_render p h = Inr (s, h') \<longrightarrow> h' = h \<and> Point_render p h' = Inr (s, h'))"
proof -
  have c1: "\<forall>k s h'. KML_Render n k h = Inr (s, h') \<longrightarrow> h' = h \<and> KML_Render n k h' = Inr (s, h')"
  proof (intro allI impI)
    fix k s h'
    assume a: "KML_Render n k h = Inr (s, h')"
    have "h' = h" by (rule keepsD [OF keeps_KML_Render a])
    with a show "h' = h \<and> KML_Render n k h' = Inr (s, h')" by simp
  qed
  have c2: "\<forall>p s h'. Folder_render n p h = Inr (s, h') \<longrightarrow> h' = h \<and> Folder_render n p h' = Inr (s, h')"
  proof (intro allI impI)
    fix p s h'
    assume a: "Folder_render n p h = Inr (s, h')"
    have "h' = h" by (rule keepsD [OF keeps_render(1) a])
    with a show "h' = h \<and> Folder_render n p h' = Inr (s, h')" by simp
  qed
  have c3: "\<forall>p s h'. Placemark_render n p h = Inr (s, h') \<longrightarrow>
      h' = h \<and> Placemark_render n p h' = Inr (s, h')"
  proof (intro allI impI)
    fix p s h'
    assume a: "Placemark_render n p h = Inr (s, h')"
    have "h' = h" by (rule keepsD [OF keeps_render(2) a])
    with a show "h' = h \<and> Placemark_render n p h' = Inr (s, h')" by simp
  qed
  have c4: "\<forall>p s h'. Style_render p h = Inr (s, h') \<longrightarrow> h' = h \<and> Style_render p h' = Inr (s, h')"
  proof (intro allI impI)
    fix p s h'
    assume a: "Style_render p h = Inr (s, h')"
    have "h' = h" by (rule keepsD [OF keeps_Style_render a])
    with a show "h' = h \<and> Style_render p h' = Inr (s, h')" by simp
  qed
  have c5: "\<forall>p s h'. Point_render p h = Inr (s, h') \<longrightarrow> h' = h \<and> Point_render p h' = Inr (s, h')"
  proof (intro allI impI)
    fix p s h'
    assume a: "Point_render p h = Inr (s, h')"
    have "h' = h" by (rule keepsD [OF keeps_Point_render a])
    with a show "h' = h \<and> Point_render p h' = Inr (s, h')" by simp
  qed
  show ?thesis
    by (rule conjI [OF c1 conjI [OF c2 conjI [OF c3 conjI [OF c4 c5]]]])
qed

theorem render_pure_witness:
  "(\<exists>s. KML_Render (Suc (Suc 0)) (Ref 0) example_heap = Inr (s, example_heap)) \<and>
   (\<exists>s. Folder_render (Suc (Suc 0)) (Ref 1) example_heap = Inr (s, example_heap)) \<and>
   (\<exists>s. Placemark_render (Suc 0) (Ref 3) example_heap = Inr (s, example_heap)) \<and>
   (\<exists>s. Style_render (Ref 4) example_heap = Inr (s, example_heap)) \<and>
   (\<exists>s. Point_render (Ref 2) example_heap = Inr (s, example_heap))"
proof -
  note two = render_pure [of "Suc (Suc 0)" example_heap]
  note one = render_pure [of "Suc 0" example_heap]
  note K = two [THEN conjunct1, rule_format, OF example_KML_Render, THEN conjunct2]
  note F = two [THEN conjunct2, THEN conjunct1, rule_format, OF example_Folder_render,
      THEN conjunct2]
  note P = one [THEN conjunct2, THEN conjunct2, THEN conjunct1, rule_format,
      OF example_Placemark_render, THEN conjunct2]
  note S = one [THEN conjunct2, THEN conjunct2, THEN conjunct2, THEN conjunct1, rule_format,
      OF example_Style_render, THEN conjunct2]
  note Q = one [THEN conjunct2, THEN conjunct2, THEN conjunct2, THEN conjunct2, rule_format,
      OF example_Point_render, THEN conjunct2]
  show ?thesis
    by (intro conjI exI, rule K, rule F, rule P, rule S, rule Q)
qed

end
